theory Spec2Isabelle
  imports Main
begin

section \<open>The code comparison tool (main.py)\<close>

text \<open>
  The program reads a column of codes from a spreadsheet or CSV file, finds codes in a
  Word or text document with a regular expression, and compares the two sets.
  Its three functions and the part of \<open>main\<close> that builds the result table are
  embedded below. Python sets are HOL sets; a Python exception is the left summand of
  a sum type; the messages that \<open>st.error\<close> shows are a list that the two
  extractors and \<open>main\<close> take and return. What the libraries (pandas, python-docx,
  \<open>re\<close>) make of a file or of a pattern is part of the input.
\<close>

subsection \<open>Set comparator\<close>

text \<open>
  \<^verbatim>\<open>
  def compare_codes(excel_codes, word_codes):
      matching_codes = excel_codes.intersection(word_codes)
      codes_only_in_excel = excel_codes - word_codes
      codes_only_in_word = word_codes - excel_codes
      return matching_codes, codes_only_in_excel, codes_only_in_word
  \<close>
  Neither \<open>intersection\<close> nor \<open>-\<close> changes its operands or raises on sets, so
  the function is a pure map from two sets to a triple of sets.
\<close>

definition compare_codes :: "'a set \<Rightarrow> 'a set \<Rightarrow> 'a set \<times> 'a set \<times> 'a set" where
  "compare_codes excel_codes word_codes =
     (let matching_codes = excel_codes \<inter> word_codes;
          codes_only_in_excel = excel_codes - word_codes;
          codes_only_in_word = word_codes - excel_codes
      in (matching_codes, codes_only_in_excel, codes_only_in_word))"

subsection \<open>Python values\<close>

text \<open>
  A Python \<open>str\<close> is the list of its code points, the integers that \<open>ord\<close>
  gives for its characters. \<open>py\<close> gives the \<open>str\<close> of a literal written in this
  file.
\<close>

type_synonym pystr = "int list"

definition py :: "string \<Rightarrow> pystr" where
  "py s = map of_char s"

text \<open>
  The exceptions that can leave the two extractors and \<open>main\<close>. None of them is
  caught anywhere in the program. \<open>ParseError\<close> stands for whatever
  \<open>pd.read_excel\<close> or \<open>pd.read_csv\<close> raises on content it cannot read (for
  instance \<open>EmptyDataError\<close> on a file of no bytes), \<open>DocumentError\<close> for what
  \<open>docx.Document\<close> raises, \<open>DecodeError\<close> for \<open>UnicodeDecodeError\<close>,
  \<open>InvalidPattern\<close> for \<open>re.error\<close>. \<open>IndexError\<close> and \<open>ValueError\<close> are
  Python's own.
\<close>

datatype py_exn =
  ParseError | DocumentError | DecodeError | IndexError | ValueError | InvalidPattern

text \<open>
  A member of a code set: a string, a tuple of strings (what \<open>re.findall\<close> returns for
  a pattern with several groups), or the float \<open>nan\<close> (what pandas 3 leaves in a column
  of strings for a missing value).
\<close>

datatype pyval = Str pystr | Tuple "pystr list" | FloatNan

text \<open>
  A cell of a parsed table, as pandas holds it: text, an integer, a boolean, a float
  other than NaN or a date (both carried as the text that \<open>astype(str)\<close> gives for
  them), the missing value NaN of a column of numbers or of objects, or the missing
  value NaT of a column of dates.
\<close>

datatype cell =
  TextCell pystr | IntCell int | BoolCell bool | FloatCell pystr | DateCell pystr | NaN | NaT

text \<open>A data frame: its columns in order, each a label and the cells below it.\<close>

type_synonym 'v dataframe = "(pystr \<times> 'v list) list"

text \<open>
  The program names no version of pandas, and \<open>astype(str)\<close> differs between them:
  before 3.0 a missing value becomes the text \<open>nan\<close> (\<open>NaT\<close> in a column of dates),
  from 3.0 on it stays a missing value. The version in use is an argument of the
  tabular extractor.
\<close>

datatype pandas_version = Before3 | From3

text \<open>
  An uploaded file is its name and its content. The content is read only by library
  calls (\<open>pd.read_excel(file)\<close>, \<open>pd.read_csv(file)\<close>,
  \<open>[para.text for para in docx.Document(file).paragraphs]\<close> and
  \<open>file.read().decode('utf-8')\<close>), so it is given by the outcome of each of them: a
  value, or the exception raised.
\<close>

record uploaded_file =
  name :: pystr
  read_excel :: "py_exn + cell dataframe"
  read_csv :: "py_exn + cell dataframe"
  paragraphs :: "py_exn + pystr list"
  read_decode :: "py_exn + pystr"

text \<open>
  A pattern is used only by \<open>re.findall\<close>, so it is given by its text and by what
  \<open>re\<close> makes of it: \<open>re.error\<close> when the text is not a valid regular expression,
  and otherwise the compiled pattern, with the number of its capturing groups and, for
  every text, the matches that a scan of the text finds, in order. A match is the
  substring matched and the substrings of the groups, one for each group (the empty
  string for a group that took no part in the match).
\<close>

record compiled =
  groups :: nat
  finditer :: "pystr \<Rightarrow> (pystr \<times> pystr list) list"

record pattern =
  source :: pystr
  compile :: "py_exn + compiled"

subsection \<open>Strings and table columns\<close>

text \<open>\<open>s.endswith(suffix)\<close>.\<close>

definition endswith :: "pystr \<Rightarrow> pystr \<Rightarrow> bool" where
  "endswith s suffix = (length suffix \<le> length s \<and> drop (length s - length suffix) s = suffix)"

text \<open>\<open>"\n".join(parts)\<close>; the code point of the newline is 10.\<close>

fun newline_join :: "pystr list \<Rightarrow> pystr" where
  "newline_join [] = []"
| "newline_join [p] = p"
| "newline_join (p # ps) = p @ 10 # newline_join ps"

text \<open>
  \<open>str(i)\<close> for an integer: decimal digits (code points 48 to 57), with a minus sign
  (45) below zero.
\<close>

fun digits :: "nat \<Rightarrow> pystr" where
  "digits n =
     (if n < 10 then [48 + int n] else digits (n div 10) @ [48 + int (n mod 10)])"

declare digits.simps [simp del]

definition str_int :: "int \<Rightarrow> pystr" where
  "str_int i = (if i < 0 then 45 # digits (nat (- i)) else digits (nat i))"

text \<open>
  \<open>Series.astype(str)\<close>, cell by cell: text stays, an integer and a boolean become
  what \<open>str\<close> gives, and a missing value becomes text before pandas 3.0 only.
\<close>

fun str_cell :: "pandas_version \<Rightarrow> cell \<Rightarrow> pyval" where
  "str_cell v (TextCell s) = Str s"
| "str_cell v (IntCell i) = Str (str_int i)"
| "str_cell v (BoolCell b) = Str (if b then py ''True'' else py ''False'')"
| "str_cell v (FloatCell shown_as) = Str shown_as"
| "str_cell v (DateCell shown_as) = Str shown_as"
| "str_cell v NaN = (case v of Before3 \<Rightarrow> Str (py ''nan'') | From3 \<Rightarrow> FloatNan)"
| "str_cell v NaT = (case v of Before3 \<Rightarrow> Str (py ''NaT'') | From3 \<Rightarrow> FloatNan)"

definition astype_str :: "pandas_version \<Rightarrow> cell list \<Rightarrow> pyval list" where
  "astype_str v column = map (str_cell v) column"

text \<open>\<open>df.iloc[:, 0]\<close>: the first column, or IndexError on a frame without columns.\<close>

fun iloc_first :: "'v dataframe \<Rightarrow> py_exn + 'v list" where
  "iloc_first [] = Inl IndexError"
| "iloc_first ((label, column) # others) = Inr column"




text \<open>
  \<open>re.findall(pattern, text)\<close> compiles the pattern, scans the text and returns, for
  each match, the matched text when the pattern has no group, the text of the group when
  it has one, and the tuple of the groups' texts when it has several.
\<close>

definition findall_item :: "nat \<Rightarrow> pystr \<times> pystr list \<Rightarrow> pyval" where
  "findall_item n m =
     (if n = 0 then Str (fst m)
      else if n = 1 then (case snd m of [] \<Rightarrow> Str [] | g # _ \<Rightarrow> Str g)
      else Tuple (snd m))"

definition re_findall :: "pattern \<Rightarrow> pystr \<Rightarrow> py_exn + pyval list" where
  "re_findall pattern text =
     (case compile pattern of
        Inl e \<Rightarrow> Inl e
      | Inr c \<Rightarrow> Inr (map (findall_item (groups c)) (finditer c text)))"

subsection \<open>Tabular code extractor\<close>

text \<open>
  \<^verbatim>\<open>
  def extract_codes_from_excel_or_csv(file) -> Set[str]:
      if file.name.endswith('.xlsx'):
          df = pd.read_excel(file)
      elif file.name.endswith('.csv'):
          df = pd.read_csv(file)
      else:
          st.error("Unsupported file format!")
          return set()
      codes = set(df.iloc[:, 0].astype(str))
      return codes
  \<close>
  The first argument is the version of pandas. The last argument and the second
  component of the result are the messages shown by \<open>st.error\<close> so far.
\<close>

definition first_column_codes ::
    "pandas_version \<Rightarrow> py_exn + cell dataframe \<Rightarrow> py_exn + pyval set" where
  "first_column_codes pandas parsed =
     (case parsed of
        Inl e \<Rightarrow> Inl e
      | Inr df \<Rightarrow>
          (case iloc_first df of
             Inl e \<Rightarrow> Inl e
           | Inr column \<Rightarrow> Inr (set (astype_str pandas column))))"

definition extract_codes_from_excel_or_csv ::
    "pandas_version \<Rightarrow> uploaded_file \<Rightarrow> pystr list \<Rightarrow> (py_exn + pyval set) \<times> pystr list" where
  "extract_codes_from_excel_or_csv pandas file shown =
     (if endswith (name file) (py ''.xlsx'') then
        (first_column_codes pandas (read_excel file), shown)
      else if endswith (name file) (py ''.csv'') then
        (first_column_codes pandas (read_csv file), shown)
      else (Inr {}, shown @ [py ''Unsupported file format!'']))"

subsection \<open>Text code extractor\<close>

text \<open>
  \<^verbatim>\<open>
  def extract_codes_from_text_or_word(file, pattern: str) -> Set[str]:
      if file.name.endswith('.docx'):
          doc = docx.Document(file)
          text = "\n".join([para.text for para in doc.paragraphs])
      elif file.name.endswith('.txt'):
          text = file.read().decode('utf-8')
      else:
          st.error("Unsupported file format!")
          return set()
      codes = set(re.findall(pattern, text))
      return codes
  \<close>
\<close>

definition found_codes :: "pattern \<Rightarrow> py_exn + pystr \<Rightarrow> py_exn + pyval set" where
  "found_codes pattern read =
     (case read of
        Inl e \<Rightarrow> Inl e
      | Inr text \<Rightarrow>
          (case re_findall pattern text of
             Inl e \<Rightarrow> Inl e
           | Inr found \<Rightarrow> Inr (set found)))"

definition extract_codes_from_text_or_word ::
    "uploaded_file \<Rightarrow> pattern \<Rightarrow> pystr list \<Rightarrow> (py_exn + pyval set) \<times> pystr list" where
  "extract_codes_from_text_or_word file pattern shown =
     (if endswith (name file) (py ''.docx'') then
        (found_codes pattern (map_sum id newline_join (paragraphs file)), shown)
      else if endswith (name file) (py ''.txt'') then
        (found_codes pattern (read_decode file), shown)
      else (Inr {}, shown @ [py ''Unsupported file format!'']))"

subsection \<open>The result table built by \<open>main\<close>\<close>

text \<open>
  \<open>pd.DataFrame(dict)\<close> takes the columns in the order of the dictionary and raises
  ValueError unless all have the same length.
\<close>

definition pd_DataFrame :: "'v dataframe \<Rightarrow> py_exn + 'v dataframe" where
  "pd_DataFrame columns =
     (if list_all (\<lambda>c. length (snd c) = length (snd (hd columns))) columns
      then Inr columns else Inl ValueError)"

text \<open>
  \<^verbatim>\<open>
  max_len = max(len(matching_codes), len(codes_only_in_excel), len(codes_only_in_word))
  matching_codes_list = list(matching_codes) + [None] * (max_len - len(matching_codes))
  codes_only_in_excel_list = list(codes_only_in_excel) + [None] * (max_len - len(codes_only_in_excel))
  codes_only_in_word_list = list(codes_only_in_word) + [None] * (max_len - len(codes_only_in_word))
  result_df = pd.DataFrame({
      "Matching codes": matching_codes_list,
      "Codes only in Excel/CSV": codes_only_in_excel_list,
      "Codes only in Word/TXT": codes_only_in_word_list
  })
  \<close>
  A cell of the result is a code or \<open>None\<close>. The order in which \<open>list\<close> returns
  the members of a set is not determined by the program; \<open>py_list\<close> is that
  enumeration.
\<close>

definition result_df ::
    "('a set \<Rightarrow> 'a list) \<Rightarrow> 'a set \<times> 'a set \<times> 'a set \<Rightarrow> py_exn + 'a option dataframe" where
  "result_df py_list compared =
     (case compared of (matching_codes, codes_only_in_excel, codes_only_in_word) \<Rightarrow>
        let max_len = max (card matching_codes)
                          (max (card codes_only_in_excel) (card codes_only_in_word));
            matching_codes_list =
              map Some (py_list matching_codes) @ replicate (max_len - card matching_codes) None;
            codes_only_in_excel_list =
              map Some (py_list codes_only_in_excel)
                @ replicate (max_len - card codes_only_in_excel) None;
            codes_only_in_word_list =
              map Some (py_list codes_only_in_word)
                @ replicate (max_len - card codes_only_in_word) None
        in pd_DataFrame
             [(py ''Matching codes'', matching_codes_list),
              (py ''Codes only in Excel/CSV'', codes_only_in_excel_list),
              (py ''Codes only in Word/TXT'', codes_only_in_word_list)])"

text \<open>
  The computation in \<open>main\<close>, from the two uploads and the pattern to the result
  table (lines 49 to 69). Nothing happens until both files are uploaded. Writing the
  table to a spreadsheet and showing it are not part of the model.
  \<^verbatim>\<open>
  if code_file and text_file:
      excel_codes = extract_codes_from_excel_or_csv(code_file)
      word_codes = extract_codes_from_text_or_word(text_file, custom_pattern)
      matching_codes, codes_only_in_excel, codes_only_in_word = compare_codes(excel_codes, word_codes)
      ...
  \<close>
\<close>

definition main ::
    "pandas_version \<Rightarrow> uploaded_file option \<Rightarrow> uploaded_file option \<Rightarrow> pattern
       \<Rightarrow> (pyval set \<Rightarrow> pyval list) \<Rightarrow> pystr list
       \<Rightarrow> (py_exn + pyval option dataframe option) \<times> pystr list" where
  "main pandas code_file text_file custom_pattern py_list shown =
     (case (code_file, text_file) of
        (Some cf, Some tf) \<Rightarrow>
          (case extract_codes_from_excel_or_csv pandas cf shown of
             (Inl e, shown1) \<Rightarrow> (Inl e, shown1)
           | (Inr excel_codes, shown1) \<Rightarrow>
               (case extract_codes_from_text_or_word tf custom_pattern shown1 of
                  (Inl e, shown2) \<Rightarrow> (Inl e, shown2)
                | (Inr word_codes, shown2) \<Rightarrow>
                    (map_sum id Some (result_df py_list (compare_codes excel_codes word_codes)),
                     shown2)))
      | _ \<Rightarrow> (Inr None, shown))"

section \<open>Sample inputs\<close>

subsection \<open>Sample patterns\<close>

text \<open>
  The compiled patterns of the examples are built by a backtracking matcher, as
  \<open>re\<close> is one: alternatives are tried left to right, quantifiers longest first. It
  has literal characters, \<open>\d\<close>, capturing groups, alternation and the quantifier
  \<open>*\<close>; \<open>r+\<close> is \<open>r\<close> followed by \<open>r*\<close>. The general theorems on the
  extractors do not refer to it: it only supplies inputs.
\<close>

datatype regex =
  Lit int | Digit | Seq regex regex | Alt regex regex | Star regex | Group nat regex

type_synonym captures = "(nat \<times> pystr) list"

text \<open>A matcher state: the input still to read, and the groups captured (latest first).\<close>

type_synonym mstate = "pystr \<times> captures"

text \<open>
  What \<open>\d\<close> matches in a \<open>str\<close>: the decimal digits, Unicode category Nd
  (the ranges of Unicode 14, the tables of Python 3.11).
\<close>

definition decimal_digits :: "(int \<times> int) list" where
  "decimal_digits =
     [(48, 57), (1632, 1641), (1776, 1785), (1984, 1993), (2406, 2415), (2534, 2543),
      (2662, 2671), (2790, 2799), (2918, 2927), (3046, 3055), (3174, 3183), (3302, 3311),
      (3430, 3439), (3558, 3567), (3664, 3673), (3792, 3801), (3872, 3881), (4160, 4169),
      (4240, 4249), (6112, 6121), (6160, 6169), (6470, 6479), (6608, 6617), (6784, 6793),
      (6800, 6809), (6992, 7001), (7088, 7097), (7232, 7241), (7248, 7257), (42528, 42537),
      (43216, 43225), (43264, 43273), (43472, 43481), (43504, 43513), (43600, 43609),
      (44016, 44025), (65296, 65305), (66720, 66729), (68912, 68921), (69734, 69743),
      (69872, 69881), (69942, 69951), (70096, 70105), (70384, 70393), (70736, 70745),
      (70864, 70873), (71248, 71257), (71360, 71369), (71472, 71481), (71904, 71913),
      (72016, 72025), (72784, 72793), (73040, 73049), (73120, 73129), (92768, 92777),
      (92864, 92873), (93008, 93017), (120782, 120831), (123200, 123209), (123632, 123641),
      (125264, 125273), (130032, 130041)]"

definition is_digit :: "int \<Rightarrow> bool" where
  "is_digit x = list_ex (\<lambda>(lo, hi). lo \<le> x \<and> x \<le> hi) decimal_digits"

text \<open>
  \<open>ends r st\<close> lists every state in which \<open>r\<close> can stop when started in \<open>st\<close>, in
  the order in which backtracking tries them. A repetition whose body matched the
  empty string stops iterating.
\<close>

fun ends :: "regex \<Rightarrow> mstate \<Rightarrow> mstate list" where
  "ends (Lit c) (s, caps) =
     (case s of [] \<Rightarrow> [] | x # xs \<Rightarrow> if x = c then [(xs, caps)] else [])"
| "ends Digit (s, caps) =
     (case s of [] \<Rightarrow> [] | x # xs \<Rightarrow> if is_digit x then [(xs, caps)] else [])"
| "ends (Seq a b) st = concat (map (ends b) (ends a st))"
| "ends (Alt a b) st = ends a st @ ends b st"
| "ends (Star r) (s, caps) =
     concat (map (\<lambda>(s', caps').
                    if length s' < length s then ends (Star r) (s', caps') else [(s', caps')])
                 (ends r (s, caps))) @ [(s, caps)]"
| "ends (Group n r) (s, caps) =
     map (\<lambda>(s', caps'). (s', (n, take (length s - length s') s) # caps')) (ends r (s, caps))"

declare ends.simps(5) [simp del]

text \<open>Every state that \<open>ends\<close> lists is reached by reading a prefix of the input.\<close>

lemma ends_suffix: "x \<in> set (ends r st) \<Longrightarrow> \<exists>m. fst st = m @ fst x"
proof (induction r st arbitrary: x rule: ends.induct)
  case (1 c s caps)
  then show ?case by (cases s) (auto split: if_splits)
next
  case (2 s caps)
  then show ?case by (cases s) (auto split: if_splits)
next
  case (3 a b st)
  from "3.prems" obtain y where y: "y \<in> set (ends a st)" and x: "x \<in> set (ends b y)"
    by auto
  from "3.IH"(1) [OF y] obtain m1 where "fst st = m1 @ fst y" ..
  moreover from "3.IH"(2) [OF y x] obtain m2 where "fst y = m2 @ fst x" ..
  ultimately have "fst st = (m1 @ m2) @ fst x" by simp
  then show ?case ..
next
  case (4 a b st)
  from "4.prems" have "x \<in> set (ends a st) \<or> x \<in> set (ends b st)" by simp
  with "4.IH" show ?case by blast
next
  case (5 r s caps)
  have "x \<in> set (concat (map (\<lambda>(s', caps').
            if length s' < length s then ends (Star r) (s', caps') else [(s', caps')])
          (ends r (s, caps))) @ [(s, caps)])"
    using "5.prems" by (subst (asm) ends.simps(5))
  then consider "x = (s, caps)"
    | s' caps' where "(s', caps') \<in> set (ends r (s, caps))" "length s' < length s"
        "x \<in> set (ends (Star r) (s', caps'))"
    | s' caps' where "(s', caps') \<in> set (ends r (s, caps))" "\<not> length s' < length s"
        "x = (s', caps')"
    by (auto split: if_splits)
  then show ?case
  proof cases
    case 1
    then show ?thesis by simp
  next
    case 2
    from "5.IH"(1) [OF 2(1)] obtain m1 where "s = m1 @ s'" by auto
    moreover from "5.IH"(2) [OF 2(1) refl 2(2) 2(3)] obtain m2 where "s' = m2 @ fst x" by auto
    ultimately have "fst (s, caps) = (m1 @ m2) @ fst x" by simp
    then show ?thesis ..
  next
    case 3
    from "5.IH"(1) [OF 3(1)] 3(3) show ?thesis by simp
  qed
next
  case (6 n r s caps)
  from "6.prems" obtain y where y: "y \<in> set (ends r (s, caps))" and "fst x = fst y"
    by auto
  with "6.IH" [OF y] show ?case by simp
qed

lemma ends_length: "(s', caps') \<in> set (ends r (s, caps)) \<Longrightarrow> length s' \<le> length s"
  using ends_suffix [of "(s', caps')" r "(s, caps)"] by auto

text \<open>
  One attempt of the matcher at the start of \<open>s\<close>: the first state in backtracking
  order. After an empty match the next attempt at the same position must read at
  least one character (\<open>must_advance\<close>).
\<close>

definition match_at :: "regex \<Rightarrow> bool \<Rightarrow> pystr \<Rightarrow> mstate option" where
  "match_at r must_advance s =
     (case filter (\<lambda>(s', caps). if must_advance then length s' < length s else True)
                  (ends r (s, []))
      of [] \<Rightarrow> None | m # _ \<Rightarrow> Some m)"

lemma match_at_ends:
  assumes "match_at r adv s = Some (s', caps)"
  shows "(s', caps) \<in> set (ends r (s, []))" and "adv \<Longrightarrow> length s' < length s"
proof -
  let ?ok = "\<lambda>(s', caps). if adv then length s' < length s else True"
  from assms obtain ms where "filter ?ok (ends r (s, [])) = (s', caps) # ms"
    by (auto simp: match_at_def split: list.splits)
  then have "(s', caps) \<in> set (filter ?ok (ends r (s, [])))"
    by simp
  then have m: "(s', caps) \<in> set (ends r (s, []))" and a: "if adv then length s' < length s else True"
    by auto
  from m show "(s', caps) \<in> set (ends r (s, []))" .
  from a show "adv \<Longrightarrow> length s' < length s" by simp
qed

text \<open>
  The scan: matches are searched left to right and do not overlap; where no match
  starts, the scan moves one character on. Each match is returned as the text matched
  and the groups captured.
\<close>

function scan :: "regex \<Rightarrow> bool \<Rightarrow> pystr \<Rightarrow> (pystr \<times> captures) list" where
  "scan r must_advance s =
     (case match_at r must_advance s of
        Some (s', caps) \<Rightarrow>
          (take (length s - length s') s, caps) # scan r (length s' = length s) s'
      | None \<Rightarrow> (case s of [] \<Rightarrow> [] | _ # s'' \<Rightarrow> scan r False s''))"
  by pat_completeness auto
termination
proof (relation "measure (\<lambda>(r, adv, s). 2 * length s + (if adv then 0 else 1))", goal_cases)
  case 1
  show ?case by simp
next
  case (2 r adv s x xs)
  then show ?case by simp
next
  case (3 r adv s m s' caps)
  then have m: "match_at r adv s = Some (s', caps)" by simp
  from ends_length [OF match_at_ends(1) [OF m]] match_at_ends(2) [OF m]
  show ?case by (cases adv) auto
qed

declare scan.simps [simp del]

text \<open>
  The compiled pattern of an expression with \<open>n\<close> groups, numbered from 1 in the order
  of their opening parentheses.
\<close>

definition group_text :: "captures \<Rightarrow> nat \<Rightarrow> pystr" where
  "group_text caps i = (case map_of caps i of None \<Rightarrow> [] | Some g \<Rightarrow> g)"

definition sample_compiled :: "regex \<Rightarrow> nat \<Rightarrow> compiled" where
  "sample_compiled r n =
     \<lparr>groups = n,
      finditer = (\<lambda>text. map (\<lambda>(m, caps). (m, map (group_text caps) [1..<Suc n]))
                              (scan r False text))\<rparr>"

text \<open>
  The default pattern of the pattern field, \<open>INT-\d+\<close>; the same pattern with a group
  around the digits, \<open>INT-(\d+)\<close>; a pattern that matches nothing in the sample texts,
  \<open>EXT-\d+\<close>; and \<open>[unclosed\<close>, which \<open>re\<close> rejects (unterminated character set).
  The code point of the backslash is 92.
\<close>

definition int_pattern :: pattern where
  "int_pattern =
     \<lparr>source = py ''INT-'' @ [92] @ py ''d+'',
      compile = Inr (sample_compiled
        (Seq (Lit 73) (Seq (Lit 78) (Seq (Lit 84) (Seq (Lit 45) (Seq Digit (Star Digit)))))) 0)\<rparr>"

definition int_group_pattern :: pattern where
  "int_group_pattern =
     \<lparr>source = py ''INT-('' @ [92] @ py ''d+)'',
      compile = Inr (sample_compiled
        (Seq (Lit 73) (Seq (Lit 78) (Seq (Lit 84) (Seq (Lit 45)
           (Group 1 (Seq Digit (Star Digit))))))) 1)\<rparr>"

definition ext_pattern :: pattern where
  "ext_pattern =
     \<lparr>source = py ''EXT-'' @ [92] @ py ''d+'',
      compile = Inr (sample_compiled
        (Seq (Lit 69) (Seq (Lit 88) (Seq (Lit 84) (Seq (Lit 45) (Seq Digit (Star Digit)))))) 0)\<rparr>"

definition unclosed_pattern :: pattern where
  "unclosed_pattern = \<lparr>source = py ''[unclosed'', compile = Inl InvalidPattern\<rparr>"

subsection \<open>Sample uploads\<close>

text \<open>
  \<open>codes_csv\<close> is the table of the specification's example: the header \<open>Code\<close> and
  the data rows \<open>A-1\<close>, \<open>A-2\<close>, \<open>A-1\<close>.
\<close>

definition codes_csv :: uploaded_file where
  "codes_csv =
     \<lparr>name = py ''codes.csv'',
      read_excel = Inl ParseError,
      read_csv = Inr [(py ''Code'', [TextCell (py ''A-1''), TextCell (py ''A-2''),
                                     TextCell (py ''A-1'')])],
      paragraphs = Inl DocumentError,
      read_decode = Inr (py ''Code\<newline>A-1\<newline>A-2\<newline>A-1\<newline>'')\<rparr>"

text \<open>The same content uploaded under a name in capital letters.\<close>

definition codes_upper_csv :: uploaded_file where
  "codes_upper_csv = codes_csv\<lparr>name := py ''CODES.CSV''\<rparr>"


text \<open>A workbook with a header row and no data row, in two columns.\<close>

definition header_only_xlsx :: uploaded_file where
  "header_only_xlsx =
     \<lparr>name = py ''empty.xlsx'',
      read_excel = Inr [(py ''Code'', []), (py ''Owner'', [])],
      read_csv = Inl ParseError,
      paragraphs = Inl DocumentError,
      read_decode = Inl DecodeError\<rparr>"

text \<open>A workbook whose first sheet has no cell at all: pandas reads a table of no column.\<close>

definition blank_xlsx :: uploaded_file where
  "blank_xlsx =
     \<lparr>name = py ''blank.xlsx'',
      read_excel = Inr [],
      read_csv = Inl ParseError,
      paragraphs = Inl DocumentError,
      read_decode = Inl DecodeError\<rparr>"



text \<open>The text of the specification's example, as a text file.\<close>

definition notes_txt :: uploaded_file where
  "notes_txt =
     \<lparr>name = py ''notes.txt'',
      read_excel = Inl ParseError,
      read_csv = Inr [(py ''see INT-42 and INT-42 again'', []), (py '' also INT-7'', [])],
      paragraphs = Inl DocumentError,
      read_decode = Inr (py ''see INT-42 and INT-42 again, also INT-7'')\<rparr>"

text \<open>The same text uploaded under a name in capital letters.\<close>

definition notes_upper_txt :: uploaded_file where
  "notes_upper_txt = notes_txt\<lparr>name := py ''NOTES.TXT''\<rparr>"

text \<open>
  A Word document of three paragraphs; the last code is broken across two of them.
\<close>

definition report_docx :: uploaded_file where
  "report_docx =
     \<lparr>name = py ''report.docx'',
      read_excel = Inl ParseError,
      read_csv = Inl ParseError,
      paragraphs = Inr [py ''see INT-42'', py ''and INT-7, INT-'', py ''42 again''],
      read_decode = Inl DecodeError\<rparr>"

text \<open>
  The uploads of the specification's end-to-end example: the table holds \<open>INT-1\<close>,
  \<open>INT-2\<close>, \<open>INT-3\<close> and the text holds \<open>INT-2\<close>, \<open>INT-3\<close>, \<open>INT-4\<close>.
\<close>

definition table_123_csv :: uploaded_file where
  "table_123_csv =
     \<lparr>name = py ''table.csv'',
      read_excel = Inl ParseError,
      read_csv = Inr [(py ''Code'', [TextCell (py ''INT-1''), TextCell (py ''INT-2''),
                                     TextCell (py ''INT-3'')])],
      paragraphs = Inl DocumentError,
      read_decode = Inr (py ''Code\<newline>INT-1\<newline>INT-2\<newline>INT-3\<newline>'')\<rparr>"

definition text_234_txt :: uploaded_file where
  "text_234_txt =
     \<lparr>name = py ''text.txt'',
      read_excel = Inl ParseError,
      read_csv = Inr [(py ''INT-2 INT-3 INT-4'', [])],
      paragraphs = Inl DocumentError,
      read_decode = Inr (py ''INT-2 INT-3 INT-4'')\<rparr>"

text \<open>
  One order in which \<open>list\<close> may enumerate a set of these codes: the members of the
  set, in the order \<open>INT-3\<close>, \<open>INT-2\<close>, \<open>INT-4\<close>, \<open>INT-1\<close>.
\<close>

definition sample_list :: "pyval set \<Rightarrow> pyval list" where
  "sample_list S =
     filter (\<lambda>x. x \<in> S)
       [Str (py ''INT-3''), Str (py ''INT-2''), Str (py ''INT-4''), Str (py ''INT-1'')]"

section \<open>Properties\<close>

subsection \<open>Comparator\<close>

text \<open>
  C1. For every pair of code sets \<open>L\<close> and \<open>R\<close> the comparator returns the triple
  \<open>(M, LO, RO)\<close> with \<open>M = L \<inter> R\<close>, \<open>LO = L - R\<close> and \<open>RO = R - L\<close>; the three sets
  are pairwise disjoint, \<open>M \<union> LO = L\<close> and \<open>M \<union> RO = R\<close>.
\<close>

theorem compare_codes_partition:
  "\<exists>M LO RO. compare_codes L R = (M, LO, RO)
     \<and> M = L \<inter> R \<and> LO = L - R \<and> RO = R - L
     \<and> M \<inter> LO = {} \<and> M \<inter> RO = {} \<and> LO \<inter> RO = {}
     \<and> M \<union> LO = L \<and> M \<union> RO = R"
  unfolding compare_codes_def Let_def by blast

text \<open>
  C7. The comparator has a result for every pair of code sets, empty ones included:
  on two empty sets it returns three empty sets, and against an empty right set it
  returns \<open>(\<emptyset>, L, \<emptyset>)\<close>.
\<close>

theorem compare_codes_total:
  "(\<exists>M LO RO. compare_codes L R = (M, LO, RO))
     \<and> compare_codes {} {} = ({}, {}, {})
     \<and> compare_codes L {} = ({}, L, {})"
  by (simp add: compare_codes_def)

text \<open>
  C8. The comparator is deterministic and independent of element order: two calls whose
  inputs hold the same elements, however the inputs were built (from lists in any order
  and with any repetition), return the same triple of sets.
\<close>

theorem compare_codes_deterministic:
  assumes "set xs = set xs'" and "set ys = set ys'"
  shows "compare_codes (set xs) (set ys) = compare_codes (set xs') (set ys')"
  using assms by simp

theorem compare_codes_deterministic_witness:
  "set [''INT-1'', ''INT-2'', ''INT-2''] = set [''INT-2'', ''INT-1'']
     \<and> set [''INT-2'', ''INT-4''] = set [''INT-4'', ''INT-2'', ''INT-4'']
     \<and> compare_codes (set [''INT-1'', ''INT-2'', ''INT-2'']) (set [''INT-2'', ''INT-4''])
         = compare_codes (set [''INT-2'', ''INT-1'']) (set [''INT-4'', ''INT-2'', ''INT-4''])
     \<and> compare_codes (set [''INT-2'', ''INT-1'']) (set [''INT-4'', ''INT-2'', ''INT-4''])
         = ({''INT-2''}, {''INT-1''}, {''INT-4''})"
proof -
  have l: "set [''INT-1'', ''INT-2'', ''INT-2''] = set [''INT-2'', ''INT-1'']"
    by auto
  have r: "set [''INT-2'', ''INT-4''] = set [''INT-4'', ''INT-2'', ''INT-4'']"
    by auto
  have v: "compare_codes (set [''INT-2'', ''INT-1'']) (set [''INT-4'', ''INT-2'', ''INT-4''])
         = ({''INT-2''}, {''INT-1''}, {''INT-4''})"
    by (auto simp add: compare_codes_def)
  from compare_codes_deterministic [OF l r] l r v show ?thesis
    by blast
qed

subsection \<open>Tabular extractor\<close>










lemma first_column_codes_Inr:
  "first_column_codes v (Inr ((label, column) # others)) = Inr (str_cell v ` set column)"
  by (simp add: first_column_codes_def astype_str_def)

lemma extract_first_column:
  assumes "endswith (name file) (py ''.xlsx'') \<or> endswith (name file) (py ''.csv'')"
    and "(if endswith (name file) (py ''.xlsx'') then read_excel file else read_csv file)
           = Inr ((label, column) # others)"
  shows "extract_codes_from_excel_or_csv v file shown = (Inr (str_cell v ` set column), shown)"
  using assms
  by (auto simp add: extract_codes_from_excel_or_csv_def first_column_codes_Inr split: if_splits)




text \<open>
  C6, as the specification states it, fails: a recognized input with no data rows may
  have no header row either. For a workbook whose first sheet is empty pandas returns a
  table of no column, and \<open>df.iloc[:, 0]\<close> raises IndexError.
\<close>

theorem tabular_no_data_rows_counterexample:
  "endswith (name blank_xlsx) (py ''.xlsx'')
   \<and> read_excel blank_xlsx = Inr []
   \<and> extract_codes_from_excel_or_csv Before3 blank_xlsx [] = (Inl IndexError, [])
   \<and> extract_codes_from_excel_or_csv From3 blank_xlsx [] = (Inl IndexError, [])"
  by (simp add: extract_codes_from_excel_or_csv_def first_column_codes_def blank_xlsx_def
      endswith_def py_def)

text \<open>
  C6, amended. For every recognized tabular input whose table has its header row (at
  least one column) and no data row, the tabular extractor returns the empty set: it
  raises nothing and shows no message.
\<close>

theorem tabular_no_data_rows:
  assumes "endswith (name file) (py ''.xlsx'') \<or> endswith (name file) (py ''.csv'')"
    and "(if endswith (name file) (py ''.xlsx'') then read_excel file else read_csv file)
           = Inr ((label, []) # others)"
  shows "extract_codes_from_excel_or_csv pandas file shown = (Inr {}, shown)"
  using extract_first_column [OF assms] by simp

theorem tabular_no_data_rows_witness:
  "(endswith (name header_only_xlsx) (py ''.xlsx'') \<or> endswith (name header_only_xlsx) (py ''.csv''))
   \<and> (if endswith (name header_only_xlsx) (py ''.xlsx'') then read_excel header_only_xlsx
        else read_csv header_only_xlsx) = Inr [(py ''Code'', []), (py ''Owner'', [])]
   \<and> extract_codes_from_excel_or_csv Before3 header_only_xlsx [] = (Inr {}, [])
   \<and> extract_codes_from_excel_or_csv From3 header_only_xlsx [] = (Inr {}, [])"
proof -
  have r: "endswith (name header_only_xlsx) (py ''.xlsx'')
        \<or> endswith (name header_only_xlsx) (py ''.csv'')"
    by (simp add: header_only_xlsx_def endswith_def py_def)
  have p: "(if endswith (name header_only_xlsx) (py ''.xlsx'') then read_excel header_only_xlsx
        else read_csv header_only_xlsx) = Inr ((py ''Code'', []) # [(py ''Owner'', [])])"
    by (simp add: header_only_xlsx_def endswith_def py_def)
  from tabular_no_data_rows [OF r p, of Before3 "[]"] tabular_no_data_rows [OF r p, of From3 "[]"]
    r p show ?thesis by simp
qed




text \<open>
  Outside these claims: a recognized input whose reader raises (as pandas does on a
  \<open>.csv\<close> file of no bytes) makes the extractor raise the same exception.
\<close>

lemma tabular_reader_raises:
  assumes "endswith (name file) (py ''.xlsx'') \<or> endswith (name file) (py ''.csv'')"
    and "(if endswith (name file) (py ''.xlsx'') then read_excel file else read_csv file) = Inl e"
  shows "extract_codes_from_excel_or_csv pandas file shown = (Inl e, shown)"
  using assms
  by (auto simp add: extract_codes_from_excel_or_csv_def first_column_codes_def split: if_splits)

subsection \<open>Unrecognized extensions\<close>

text \<open>
  C4, as the specification states it, fails: on a name with an unrecognized extension
  the extractor does not raise. The CSV content of the example, uploaded as
  \<open>CODES.CSV\<close>, makes the tabular extractor return the empty set.
\<close>

theorem unsupported_format_counterexample:
  "\<not> endswith (name codes_upper_csv) (py ''.xlsx'')
   \<and> \<not> endswith (name codes_upper_csv) (py ''.csv'')
   \<and> extract_codes_from_excel_or_csv Before3 codes_upper_csv []
       = (Inr {}, [py ''Unsupported file format!''])
   \<and> \<not> isl (fst (extract_codes_from_excel_or_csv Before3 codes_upper_csv []))"
  by (simp add: extract_codes_from_excel_or_csv_def codes_upper_csv_def codes_csv_def
      endswith_def py_def)

text \<open>
  C4, amended. For every input file whose name has an unrecognized extension (neither
  \<open>.xlsx\<close> nor \<open>.csv\<close> for the tabular extractor; neither \<open>.docx\<close> nor \<open>.txt\<close>
  for the text extractor, whatever the pattern), the extractor shows the message
  \<open>Unsupported file format!\<close> and returns the empty set; it raises no exception and
  does not read the file.
\<close>

theorem unsupported_format_reported:
  "(\<not> endswith (name file) (py ''.xlsx'') \<and> \<not> endswith (name file) (py ''.csv'')
      \<longrightarrow> extract_codes_from_excel_or_csv pandas file shown
            = (Inr {}, shown @ [py ''Unsupported file format!'']))
   \<and> (\<not> endswith (name file') (py ''.docx'') \<and> \<not> endswith (name file') (py ''.txt'')
      \<longrightarrow> extract_codes_from_text_or_word file' pattern shown
            = (Inr {}, shown @ [py ''Unsupported file format!'']))"
  by (simp add: extract_codes_from_excel_or_csv_def extract_codes_from_text_or_word_def)

theorem unsupported_format_reported_witness:
  "(\<not> endswith (name notes_txt) (py ''.xlsx'') \<and> \<not> endswith (name notes_txt) (py ''.csv''))
   \<and> extract_codes_from_excel_or_csv Before3 notes_txt []
        = (Inr {}, [py ''Unsupported file format!''])
   \<and> (\<not> endswith (name codes_csv) (py ''.docx'') \<and> \<not> endswith (name codes_csv) (py ''.txt''))
   \<and> extract_codes_from_text_or_word codes_csv int_pattern [py ''earlier message'']
        = (Inr {}, [py ''earlier message'', py ''Unsupported file format!''])"
proof -
  have a: "\<not> endswith (name notes_txt) (py ''.xlsx'') \<and> \<not> endswith (name notes_txt) (py ''.csv'')"
    by (simp add: notes_txt_def endswith_def py_def)
  have b: "\<not> endswith (name codes_csv) (py ''.docx'') \<and> \<not> endswith (name codes_csv) (py ''.txt'')"
    by (simp add: codes_csv_def endswith_def py_def)
  from unsupported_format_reported [of notes_txt Before3 "[]" codes_csv int_pattern]
    unsupported_format_reported [of notes_txt Before3 "[py ''earlier message'']" codes_csv int_pattern]
    a b
  show ?thesis by simp
qed

subsection \<open>Text extractor\<close>

text \<open>
  The sample matcher is sound: every match that its scan returns is a piece of the
  text, and the expression matches exactly that piece where it stands.
\<close>

lemma scan_matches:
  "(m, caps) \<in> set (scan r adv s)
     \<Longrightarrow> \<exists>pre post. s = pre @ m @ post \<and> (post, caps) \<in> set (ends r (m @ post, []))"
proof (induction r adv s rule: scan.induct)
  case (1 r adv s)
  show ?case
  proof (cases "match_at r adv s")
    case None
    show ?thesis
    proof (cases s)
      case Nil
      from None Nil have "scan r adv s = []"
        by (subst scan.simps) simp
      with "1.prems" show ?thesis by simp
    next
      case (Cons x xs)
      from None Cons have "scan r adv s = scan r False xs"
        by (subst scan.simps) simp
      with "1.prems" have "(m, caps) \<in> set (scan r False xs)"
        by simp
      from "1.IH"(1) [OF None Cons this] obtain pre post
        where "xs = pre @ m @ post" and e: "(post, caps) \<in> set (ends r (m @ post, []))"
        by blast
      with Cons have "s = (x # pre) @ m @ post" by simp
      with e show ?thesis by blast
    qed
  next
    case (Some st)
    obtain s' c where st: "st = (s', c)" by (cases st)
    from Some st have ma: "match_at r adv s = Some (s', c)" by simp
    from match_at_ends(1) [OF ma] have en: "(s', c) \<in> set (ends r (s, []))" .
    from ends_suffix [OF en] obtain m0 where s: "s = m0 @ s'" by auto
    then have tk: "take (length s - length s') s = m0" by simp
    from ma tk have "scan r adv s = (m0, c) # scan r (length s' = length s) s'"
      by (subst scan.simps) simp
    with "1.prems"
    have "(m, caps) = (m0, c) \<or> (m, caps) \<in> set (scan r (length s' = length s) s')"
      by simp
    then show ?thesis
    proof
      assume "(m, caps) = (m0, c)"
      with en s have "s = [] @ m @ s' \<and> (s', caps) \<in> set (ends r (m @ s', []))" by simp
      then show ?thesis by blast
    next
      assume "(m, caps) \<in> set (scan r (length s' = length s) s')"
      from "1.IH"(2) [OF Some st [symmetric] this] obtain pre post
        where "s' = pre @ m @ post" and e: "(post, caps) \<in> set (ends r (m @ post, []))"
        by blast
      with s have "s = (m0 @ pre) @ m @ post" by simp
      with e show ?thesis by blast
    qed
  qed
qed

lemma found_codes_no_group:
  assumes "compile pattern = Inr c" and "groups c = 0"
  shows "found_codes pattern (Inr text) = Inr (Str ` fst ` set (finditer c text))"
proof -
  have "map (findall_item 0) ms = map (Str \<circ> fst) ms" for ms
    by (simp add: findall_item_def)
  with assms show ?thesis
    by (simp add: found_codes_def re_findall_def image_image)
qed

lemma found_codes_invalid:
  assumes "compile pattern = Inl e"
  shows "found_codes pattern (Inr text) = Inl e"
  using assms by (simp add: found_codes_def re_findall_def)

text \<open>What the sample patterns find in the sample texts.\<close>

lemma int_pattern_notes:
  "finditer (sample_compiled
      (Seq (Lit 73) (Seq (Lit 78) (Seq (Lit 84) (Seq (Lit 45) (Seq Digit (Star Digit)))))) 0)
     (py ''see INT-42 and INT-42 again, also INT-7'')
   = [(py ''INT-42'', []), (py ''INT-42'', []), (py ''INT-7'', [])]"
  by code_simp

lemma int_group_pattern_notes:
  "finditer (sample_compiled
      (Seq (Lit 73) (Seq (Lit 78) (Seq (Lit 84) (Seq (Lit 45)
         (Group 1 (Seq Digit (Star Digit))))))) 1)
     (py ''see INT-42 and INT-42 again, also INT-7'')
   = [(py ''INT-42'', [py ''42'']), (py ''INT-42'', [py ''42'']), (py ''INT-7'', [py ''7''])]"
  by code_simp

lemma ext_pattern_notes:
  "finditer (sample_compiled
      (Seq (Lit 69) (Seq (Lit 88) (Seq (Lit 84) (Seq (Lit 45) (Seq Digit (Star Digit)))))) 0)
     (py ''see INT-42 and INT-42 again, also INT-7'') = []"
  by code_simp

lemma int_pattern_report:
  "finditer (sample_compiled
      (Seq (Lit 73) (Seq (Lit 78) (Seq (Lit 84) (Seq (Lit 45) (Seq Digit (Star Digit)))))) 0)
     (py ''see INT-42\<newline>and INT-7, INT-\<newline>42 again'')
   = [(py ''INT-42'', []), (py ''INT-7'', [])]"
  by code_simp

lemma int_pattern_text_234:
  "finditer (sample_compiled
      (Seq (Lit 73) (Seq (Lit 78) (Seq (Lit 84) (Seq (Lit 45) (Seq Digit (Star Digit)))))) 0)
     (py ''INT-2 INT-3 INT-4'')
   = [(py ''INT-2'', []), (py ''INT-3'', []), (py ''INT-4'', [])]"
  by code_simp

text \<open>
  C2, as the specification states it, fails for a valid pattern with a capture group:
  \<open>re.findall\<close> then returns what the group matched, not the matched substring. With
  \<open>INT-(\d+)\<close> the scan matches \<open>INT-42\<close>, \<open>INT-42\<close> and \<open>INT-7\<close> in the text of
  the example, and the extractor returns \<open>{42, 7}\<close>.
\<close>

theorem text_extractor_group_counterexample:
  "source int_group_pattern = py ''INT-('' @ [92] @ py ''d+)''
   \<and> \<not> isl (compile int_group_pattern)
   \<and> groups (projr (compile int_group_pattern)) = 1
   \<and> endswith (name notes_txt) (py ''.txt'')
   \<and> read_decode notes_txt = Inr (py ''see INT-42 and INT-42 again, also INT-7'')
   \<and> map fst (finditer (projr (compile int_group_pattern))
                 (py ''see INT-42 and INT-42 again, also INT-7''))
       = [py ''INT-42'', py ''INT-42'', py ''INT-7'']
   \<and> extract_codes_from_text_or_word notes_txt int_group_pattern []
       = (Inr {Str (py ''42''), Str (py ''7'')}, [])
   \<and> {Str (py ''42''), Str (py ''7'')} \<noteq> {Str (py ''INT-42''), Str (py ''INT-7'')}"
proof -
  let ?t = "py ''see INT-42 and INT-42 again, also INT-7''"
  let ?g = "Seq (Lit 73) (Seq (Lit 78) (Seq (Lit 84) (Seq (Lit 45)
              (Group 1 (Seq Digit (Star Digit))))))"
  have cg: "compile int_group_pattern = Inr (sample_compiled ?g 1)"
    by (simp add: int_group_pattern_def)
  then have pc: "projr (compile int_group_pattern) = sample_compiled ?g 1"
    by simp
  have gr: "groups (sample_compiled ?g 1) = 1"
    by (simp add: sample_compiled_def)
  have c: "source int_group_pattern = py ''INT-('' @ [92] @ py ''d+)''
     \<and> \<not> isl (compile int_group_pattern)
     \<and> groups (projr (compile int_group_pattern)) = 1"
    using gr by (simp add: pc) (simp add: int_group_pattern_def)
  have n: "endswith (name notes_txt) (py ''.txt'') \<and> \<not> endswith (name notes_txt) (py ''.docx'')
     \<and> read_decode notes_txt = Inr ?t"
    by (simp add: notes_txt_def endswith_def py_def)
  have f: "map fst (finditer (projr (compile int_group_pattern)) ?t)
       = [py ''INT-42'', py ''INT-42'', py ''INT-7'']"
    unfolding pc int_group_pattern_notes by simp
  have "re_findall int_group_pattern ?t
       = Inr (map (findall_item 1)
           [(py ''INT-42'', [py ''42'']), (py ''INT-42'', [py ''42'']), (py ''INT-7'', [py ''7''])])"
    by (simp only: re_findall_def cg sum.case gr int_group_pattern_notes)
  then have "re_findall int_group_pattern ?t
       = Inr [Str (py ''42''), Str (py ''42''), Str (py ''7'')]"
    by (simp add: findall_item_def)
  with n have e: "extract_codes_from_text_or_word notes_txt int_group_pattern []
       = (Inr {Str (py ''42''), Str (py ''7'')}, [])"
    by (simp add: extract_codes_from_text_or_word_def found_codes_def)
  have d: "{Str (py ''42''), Str (py ''7'')} \<noteq> {Str (py ''INT-42''), Str (py ''INT-7'')}"
  proof
    assume eq: "{Str (py ''42''), Str (py ''7'')} = {Str (py ''INT-42''), Str (py ''INT-7'')}"
    have "Str (py ''42'') \<in> {Str (py ''42''), Str (py ''7'')}" by simp
    then have "Str (py ''42'') \<in> {Str (py ''INT-42''), Str (py ''INT-7'')}" by (simp only: eq)
    then show False by (simp add: py_def)
  qed
  from c n f e d show ?thesis by blast
qed

text \<open>
  C2, amended. For every recognized text document (a name ending in \<open>.docx\<close> whose
  paragraphs are joined in document order by newlines, or a name ending in \<open>.txt\<close>
  whose content decodes as UTF-8) and every valid pattern without a capture group, the
  text extractor returns the set of the substrings matched in the scan of the pattern over
  the whole text, duplicates collapsed, and shows no message. A pattern with no match
  gives the empty set and no error. The pattern \<open>INT-\d+\<close> over
  \<open>see INT-42 and INT-42 again, also INT-7\<close> gives \<open>{INT-42, INT-7}\<close> (the witness).
\<close>

theorem text_extractor_matches:
  assumes "compile pattern = Inr c" and "groups c = 0"
    and "(endswith (name file) (py ''.docx'') \<and> paragraphs file = Inr ps
          \<and> text = newline_join ps)
       \<or> (\<not> endswith (name file) (py ''.docx'') \<and> endswith (name file) (py ''.txt'')
           \<and> read_decode file = Inr text)"
  shows "extract_codes_from_text_or_word file pattern shown
           = (Inr (Str ` fst ` set (finditer c text)), shown)
     \<and> (finditer c text = []
           \<longrightarrow> extract_codes_from_text_or_word file pattern shown = (Inr {}, shown))"
proof -
  have x: "extract_codes_from_text_or_word file pattern shown
           = (Inr (Str ` fst ` set (finditer c text)), shown)"
    using assms(3) found_codes_no_group [OF assms(1,2)]
    by (auto simp add: extract_codes_from_text_or_word_def)
  then show ?thesis by simp
qed

theorem text_extractor_matches_witness:
  "source int_pattern = py ''INT-'' @ [92] @ py ''d+''
   \<and> \<not> isl (compile int_pattern) \<and> groups (projr (compile int_pattern)) = 0
   \<and> \<not> endswith (name notes_txt) (py ''.docx'') \<and> endswith (name notes_txt) (py ''.txt'')
   \<and> read_decode notes_txt = Inr (py ''see INT-42 and INT-42 again, also INT-7'')
   \<and> extract_codes_from_text_or_word notes_txt int_pattern []
       = (Inr {Str (py ''INT-42''), Str (py ''INT-7'')}, [])
   \<and> \<not> isl (compile ext_pattern) \<and> groups (projr (compile ext_pattern)) = 0
   \<and> extract_codes_from_text_or_word notes_txt ext_pattern [] = (Inr {}, [])
   \<and> endswith (name report_docx) (py ''.docx'')
   \<and> paragraphs report_docx = Inr [py ''see INT-42'', py ''and INT-7, INT-'', py ''42 again'']
   \<and> newline_join [py ''see INT-42'', py ''and INT-7, INT-'', py ''42 again'']
       = py ''see INT-42\<newline>and INT-7, INT-\<newline>42 again''
   \<and> extract_codes_from_text_or_word report_docx int_pattern []
       = (Inr {Str (py ''INT-42''), Str (py ''INT-7'')}, [])"
proof -
  let ?r = "Seq (Lit 73) (Seq (Lit 78) (Seq (Lit 84) (Seq (Lit 45) (Seq Digit (Star Digit)))))"
  let ?q = "Seq (Lit 69) (Seq (Lit 88) (Seq (Lit 84) (Seq (Lit 45) (Seq Digit (Star Digit)))))"
  let ?t = "py ''see INT-42 and INT-42 again, also INT-7''"
  let ?ps = "[py ''see INT-42'', py ''and INT-7, INT-'', py ''42 again'']"
  let ?d = "py ''see INT-42\<newline>and INT-7, INT-\<newline>42 again''"
  have c: "compile int_pattern = Inr (sample_compiled ?r 0)"
    and c': "compile ext_pattern = Inr (sample_compiled ?q 0)"
    and g: "groups (sample_compiled ?r 0) = 0" "groups (sample_compiled ?q 0) = 0"
    and so: "source int_pattern = py ''INT-'' @ [92] @ py ''d+''"
    by (simp_all add: int_pattern_def ext_pattern_def sample_compiled_def)
  have n: "\<not> endswith (name notes_txt) (py ''.docx'') \<and> endswith (name notes_txt) (py ''.txt'')
     \<and> read_decode notes_txt = Inr ?t"
    by (simp add: notes_txt_def endswith_def py_def)
  then have src: "(endswith (name notes_txt) (py ''.docx'') \<and> paragraphs notes_txt = Inr []
         \<and> ?t = newline_join [])
       \<or> (\<not> endswith (name notes_txt) (py ''.docx'') \<and> endswith (name notes_txt) (py ''.txt'')
           \<and> read_decode notes_txt = Inr ?t)"
    by blast
  from text_extractor_matches [OF c g(1) src, of "[]"]
  have a: "extract_codes_from_text_or_word notes_txt int_pattern []
       = (Inr {Str (py ''INT-42''), Str (py ''INT-7'')}, [])"
    by (simp add: int_pattern_notes)
  from text_extractor_matches [OF c' g(2) src, of "[]"]
  have b: "extract_codes_from_text_or_word notes_txt ext_pattern [] = (Inr {}, [])"
    by (simp add: ext_pattern_notes)
  have j: "newline_join ?ps = ?d"
    by (simp add: py_def)
  have nd: "endswith (name report_docx) (py ''.docx'') \<and> paragraphs report_docx = Inr ?ps"
    by (simp add: report_docx_def endswith_def py_def)
  with j have srcd: "(endswith (name report_docx) (py ''.docx'') \<and> paragraphs report_docx = Inr ?ps
         \<and> ?d = newline_join ?ps)
       \<or> (\<not> endswith (name report_docx) (py ''.docx'') \<and> endswith (name report_docx) (py ''.txt'')
           \<and> read_decode report_docx = Inr ?d)"
    by simp
  from text_extractor_matches [OF c g(1) srcd, of "[]"]
  have d: "extract_codes_from_text_or_word report_docx int_pattern []
       = (Inr {Str (py ''INT-42''), Str (py ''INT-7'')}, [])"
    by (simp add: int_pattern_report)
  from c c' g so n a b nd j d show ?thesis by simp
qed

text \<open>
  A document that cannot be read makes the text extractor raise the reader's exception,
  whatever the pattern: the pattern is used only after the text is there.
\<close>

lemma text_reader_raises:
  assumes "(endswith (name file) (py ''.docx'') \<and> paragraphs file = Inl e)
       \<or> (\<not> endswith (name file) (py ''.docx'') \<and> endswith (name file) (py ''.txt'')
           \<and> read_decode file = Inl e)"
  shows "extract_codes_from_text_or_word file pattern shown = (Inl e, shown)"
  using assms
  by (auto simp add: extract_codes_from_text_or_word_def found_codes_def)

text \<open>
  C5, as the specification states it, fails: the extension of the file is tested before
  the pattern is used. On the text of the example uploaded as \<open>NOTES.TXT\<close>, the
  pattern \<open>[unclosed\<close> raises nothing and the text extractor returns the empty set.
\<close>

theorem invalid_pattern_counterexample:
  "source unclosed_pattern = py ''[unclosed''
   \<and> compile unclosed_pattern = Inl InvalidPattern
   \<and> extract_codes_from_text_or_word notes_upper_txt unclosed_pattern []
       = (Inr {}, [py ''Unsupported file format!''])
   \<and> \<not> isl (fst (extract_codes_from_text_or_word notes_upper_txt unclosed_pattern []))"
  by (simp add: extract_codes_from_text_or_word_def notes_upper_txt_def notes_txt_def
      unclosed_pattern_def endswith_def py_def)

text \<open>
  C5, amended. For every syntactically invalid pattern (every pattern on which \<open>re\<close>
  raises \<open>re.error\<close>) and every recognized document whose text was read (a \<open>.docx\<close>
  file whose paragraphs were read, or a \<open>.txt\<close> file whose content decoded), the text
  extractor fails with the pattern error and shows no message; and \<open>main\<close>, once the
  tabular extractor has returned, fails with the same error instead of building a result
  table.
\<close>

theorem invalid_pattern_raises:
  assumes "compile pattern = Inl InvalidPattern"
    and "(endswith (name file) (py ''.docx'') \<and> paragraphs file = Inr ps)
       \<or> (\<not> endswith (name file) (py ''.docx'') \<and> endswith (name file) (py ''.txt'')
           \<and> read_decode file = Inr text)"
  shows "extract_codes_from_text_or_word file pattern shown = (Inl InvalidPattern, shown)
     \<and> (\<forall>code_file codes shown0.
           extract_codes_from_excel_or_csv pandas code_file shown0 = (Inr codes, shown)
           \<longrightarrow> main pandas (Some code_file) (Some file) pattern py_list shown0
                 = (Inl InvalidPattern, shown))"
proof -
  have x: "extract_codes_from_text_or_word file pattern shown = (Inl InvalidPattern, shown)"
    using assms(2) found_codes_invalid [OF assms(1)]
    by (auto simp add: extract_codes_from_text_or_word_def)
  then show ?thesis
    by (simp add: main_def)
qed

theorem invalid_pattern_raises_witness:
  "compile unclosed_pattern = Inl InvalidPattern
   \<and> \<not> endswith (name notes_txt) (py ''.docx'') \<and> endswith (name notes_txt) (py ''.txt'')
   \<and> read_decode notes_txt = Inr (py ''see INT-42 and INT-42 again, also INT-7'')
   \<and> extract_codes_from_text_or_word notes_txt unclosed_pattern [] = (Inl InvalidPattern, [])
   \<and> extract_codes_from_excel_or_csv Before3 codes_csv []
       = (Inr {Str (py ''A-1''), Str (py ''A-2'')}, [])
   \<and> main Before3 (Some codes_csv) (Some notes_txt) unclosed_pattern sample_list []
       = (Inl InvalidPattern, [])"
proof -
  let ?t = "py ''see INT-42 and INT-42 again, also INT-7''"
  have c: "compile unclosed_pattern = Inl InvalidPattern"
    by (simp add: unclosed_pattern_def)
  have n: "\<not> endswith (name notes_txt) (py ''.docx'') \<and> endswith (name notes_txt) (py ''.txt'')
     \<and> read_decode notes_txt = Inr ?t"
    by (simp add: notes_txt_def endswith_def py_def)
  then have src: "(endswith (name notes_txt) (py ''.docx'') \<and> paragraphs notes_txt = Inr [])
       \<or> (\<not> endswith (name notes_txt) (py ''.docx'') \<and> endswith (name notes_txt) (py ''.txt'')
           \<and> read_decode notes_txt = Inr ?t)"
    by blast
  have t: "extract_codes_from_excel_or_csv Before3 codes_csv []
       = (Inr {Str (py ''A-1''), Str (py ''A-2'')}, [])"
    by (auto simp add: extract_codes_from_excel_or_csv_def first_column_codes_Inr codes_csv_def
        endswith_def py_def)
  from invalid_pattern_raises [OF c src, of "[]" Before3 sample_list] t
  have "extract_codes_from_text_or_word notes_txt unclosed_pattern [] = (Inl InvalidPattern, [])
     \<and> main Before3 (Some codes_csv) (Some notes_txt) unclosed_pattern sample_list []
         = (Inl InvalidPattern, [])"
    by blast
  with c n t show ?thesis by blast
qed

subsection \<open>Result table\<close>

lemma result_df_columns:
  assumes "set (py_list m) = m \<and> distinct (py_list m)"
    and "set (py_list lo) = lo \<and> distinct (py_list lo)"
    and "set (py_list ro) = ro \<and> distinct (py_list ro)"
  shows "result_df py_list (m, lo, ro)
     = Inr [(py ''Matching codes'',
             map Some (py_list m) @ replicate (max (card m) (max (card lo) (card ro)) - card m) None),
            (py ''Codes only in Excel/CSV'',
             map Some (py_list lo) @ replicate (max (card m) (max (card lo) (card ro)) - card lo) None),
            (py ''Codes only in Word/TXT'',
             map Some (py_list ro) @ replicate (max (card m) (max (card lo) (card ro)) - card ro) None)]"
proof -
  from assms(1) have m: "length (py_list m) = card m" by (metis distinct_card)
  from assms(2) have lo: "length (py_list lo) = card lo" by (metis distinct_card)
  from assms(3) have ro: "length (py_list ro) = card ro" by (metis distinct_card)
  show ?thesis
    by (simp add: result_df_def pd_DataFrame_def Let_def m lo ro)
qed

text \<open>
  C9. In the result table that \<open>main\<close> builds, each of the three columns lists the
  members of its result set, each once, in the order in which \<open>list\<close> enumerates the
  set, followed by blank cells only; all three columns have the same number of rows, the
  size of the largest of the three sets.
\<close>

theorem result_table_columns:
  assumes "extract_codes_from_excel_or_csv pandas code_file shown = (Inr excel_codes, shown1)"
    and "extract_codes_from_text_or_word text_file pattern shown1 = (Inr word_codes, shown2)"
    and "compare_codes excel_codes word_codes = (m, lo, ro)"
    and "set (py_list m) = m \<and> distinct (py_list m)"
    and "set (py_list lo) = lo \<and> distinct (py_list lo)"
    and "set (py_list ro) = ro \<and> distinct (py_list ro)"
  shows "\<exists>c1 c2 c3 n.
      main pandas (Some code_file) (Some text_file) pattern py_list shown
        = (Inr (Some [(py ''Matching codes'', c1), (py ''Codes only in Excel/CSV'', c2),
                      (py ''Codes only in Word/TXT'', c3)]), shown2)
      \<and> n = max (card m) (max (card lo) (card ro))
      \<and> length c1 = n \<and> length c2 = n \<and> length c3 = n
      \<and> c1 = map Some (py_list m) @ replicate (n - card m) None
      \<and> c2 = map Some (py_list lo) @ replicate (n - card lo) None
      \<and> c3 = map Some (py_list ro) @ replicate (n - card ro) None
      \<and> {x. Some x \<in> set c1} = m \<and> {x. Some x \<in> set c2} = lo \<and> {x. Some x \<in> set c3} = ro"
proof -
  let ?n = "max (card m) (max (card lo) (card ro))"
  let ?c1 = "map Some (py_list m) @ replicate (?n - card m) None"
  let ?c2 = "map Some (py_list lo) @ replicate (?n - card lo) None"
  let ?c3 = "map Some (py_list ro) @ replicate (?n - card ro) None"
  from assms(4) have lm: "length (py_list m) = card m" by (metis distinct_card)
  from assms(5) have llo: "length (py_list lo) = card lo" by (metis distinct_card)
  from assms(6) have lro: "length (py_list ro) = card ro" by (metis distinct_card)
  have run: "main pandas (Some code_file) (Some text_file) pattern py_list shown
        = (Inr (Some [(py ''Matching codes'', ?c1), (py ''Codes only in Excel/CSV'', ?c2),
                      (py ''Codes only in Word/TXT'', ?c3)]), shown2)"
    using assms(1,2,3) result_df_columns [OF assms(4,5,6)]
    by (simp add: main_def)
  have len: "length ?c1 = ?n \<and> length ?c2 = ?n \<and> length ?c3 = ?n"
    using lm llo lro by simp
  have s1: "{x. Some x \<in> set ?c1} = m"
    using assms(4) by auto
  have s2: "{x. Some x \<in> set ?c2} = lo"
    using assms(5) by auto
  have s3: "{x. Some x \<in> set ?c3} = ro"
    using assms(6) by auto
  from run len s1 s2 s3 show ?thesis by blast
qed

theorem result_table_columns_witness:
  "extract_codes_from_excel_or_csv Before3 table_123_csv []
     = (Inr {Str (py ''INT-1''), Str (py ''INT-2''), Str (py ''INT-3'')}, [])
   \<and> extract_codes_from_text_or_word text_234_txt int_pattern []
     = (Inr {Str (py ''INT-2''), Str (py ''INT-3''), Str (py ''INT-4'')}, [])
   \<and> compare_codes {Str (py ''INT-1''), Str (py ''INT-2''), Str (py ''INT-3'')}
                     {Str (py ''INT-2''), Str (py ''INT-3''), Str (py ''INT-4'')}
     = ({Str (py ''INT-2''), Str (py ''INT-3'')}, {Str (py ''INT-1'')}, {Str (py ''INT-4'')})
   \<and> set (sample_list {Str (py ''INT-2''), Str (py ''INT-3'')})
       = {Str (py ''INT-2''), Str (py ''INT-3'')}
   \<and> distinct (sample_list {Str (py ''INT-2''), Str (py ''INT-3'')})
   \<and> set (sample_list {Str (py ''INT-1'')}) = {Str (py ''INT-1'')}
   \<and> distinct (sample_list {Str (py ''INT-1'')})
   \<and> set (sample_list {Str (py ''INT-4'')}) = {Str (py ''INT-4'')}
   \<and> distinct (sample_list {Str (py ''INT-4'')})
   \<and> main Before3 (Some table_123_csv) (Some text_234_txt) int_pattern sample_list []
     = (Inr (Some [(py ''Matching codes'', [Some (Str (py ''INT-3'')), Some (Str (py ''INT-2''))]),
                   (py ''Codes only in Excel/CSV'', [Some (Str (py ''INT-1'')), None]),
                   (py ''Codes only in Word/TXT'', [Some (Str (py ''INT-4'')), None])]), [])"
proof -
  let ?M = "{Str (py ''INT-2''), Str (py ''INT-3'')}"
  let ?LO = "{Str (py ''INT-1'')}"
  let ?RO = "{Str (py ''INT-4'')}"
  let ?r = "Seq (Lit 73) (Seq (Lit 78) (Seq (Lit 84) (Seq (Lit 45) (Seq Digit (Star Digit)))))"
  have h1: "extract_codes_from_excel_or_csv Before3 table_123_csv []
     = (Inr {Str (py ''INT-1''), Str (py ''INT-2''), Str (py ''INT-3'')}, [])"
    by (simp add: extract_codes_from_excel_or_csv_def first_column_codes_Inr table_123_csv_def
        endswith_def py_def)
  have c: "compile int_pattern = Inr (sample_compiled ?r 0)"
    and g: "groups (sample_compiled ?r 0) = 0"
    by (simp_all add: int_pattern_def sample_compiled_def)
  have "re_findall int_pattern (py ''INT-2 INT-3 INT-4'')
     = Inr (map (findall_item 0)
         [(py ''INT-2'', []), (py ''INT-3'', []), (py ''INT-4'', [])])"
    by (simp only: re_findall_def c sum.case g int_pattern_text_234)
  then have h2: "extract_codes_from_text_or_word text_234_txt int_pattern []
     = (Inr {Str (py ''INT-2''), Str (py ''INT-3''), Str (py ''INT-4'')}, [])"
    by (simp add: extract_codes_from_text_or_word_def found_codes_def text_234_txt_def
        endswith_def findall_item_def)
       (simp add: py_def)
  have h3: "compare_codes {Str (py ''INT-1''), Str (py ''INT-2''), Str (py ''INT-3'')}
                          {Str (py ''INT-2''), Str (py ''INT-3''), Str (py ''INT-4'')}
           = (?M, ?LO, ?RO)"
    by (auto simp add: compare_codes_def py_def)
  have v1: "sample_list ?M = [Str (py ''INT-3''), Str (py ''INT-2'')]"
    and v2: "sample_list ?LO = [Str (py ''INT-1'')]"
    and v3: "sample_list ?RO = [Str (py ''INT-4'')]"
    by (simp_all add: sample_list_def py_def)
  have e1: "set (sample_list ?M) = ?M \<and> distinct (sample_list ?M)"
    unfolding v1 by (auto simp add: py_def)
  have e2: "set (sample_list ?LO) = ?LO \<and> distinct (sample_list ?LO)"
    unfolding v2 by simp
  have e3: "set (sample_list ?RO) = ?RO \<and> distinct (sample_list ?RO)"
    unfolding v3 by simp
  have k: "card ?M = 2" "card ?LO = 1" "card ?RO = 1"
    by (simp_all add: py_def)
  from result_table_columns [OF h1 h2 h3 e1 e2 e3]
  have "main Before3 (Some table_123_csv) (Some text_234_txt) int_pattern sample_list []
     = (Inr (Some [(py ''Matching codes'', [Some (Str (py ''INT-3'')), Some (Str (py ''INT-2''))]),
                   (py ''Codes only in Excel/CSV'', [Some (Str (py ''INT-1'')), None]),
                   (py ''Codes only in Word/TXT'', [Some (Str (py ''INT-4'')), None])]), [])"
    by (auto simp add: v1 v2 v3 k)
  with h1 h2 h3 e1 e2 e3 show ?thesis by blast
qed

end
